theory Spec2Isabelle
  imports Complex_Main "HOL-Library.Word"
begin

section \<open>Common conventions\<close>

text \<open>
  Python exceptions are values: every function that can raise returns
  \<open>error + 'a\<close>, with \<open>Inl\<close> carrying the exception that leaves the function.
  None of the modelled functions has a \<^verbatim>\<open>try\<close> block, so the first exception raised
  is the result.

  A finite IEEE double is a rational number. In \<^verbatim>\<open>gpx_parser.py\<close> every float
  comes from \<^verbatim>\<open>float()\<close> on a string of the document, which also accepts
  \<^verbatim>\<open>nan\<close>, \<^verbatim>\<open>inf\<close> and literals that overflow, so the values there are of
  the type \<open>pyfloat\<close>: a rational, an infinity or NaN. In \<^verbatim>\<open>terrain.py\<close>
  pixel values and sizes are finite and of type \<open>rat\<close>; the one NaN that the code
  can produce there, by a division of zero by zero, is written out where it occurs.
\<close>

datatype error =
    ParseError          \<comment> \<open>\<^verbatim>\<open>xml.etree.ElementTree.ParseError\<close>: the document is not well-formed\<close>
  | FileNotFoundError   \<comment> \<open>no file at the path\<close>
  | TypeError           \<comment> \<open>\<^verbatim>\<open>float(None)\<close>\<close>
  | ValueError          \<comment> \<open>\<^verbatim>\<open>float(s)\<close> on a non-numeric string; \<^verbatim>\<open>range\<close> with step 0;
                            \<^verbatim>\<open>min\<close> of nothing; \<^verbatim>\<open>resize\<close> to an empty size\<close>
  | RuntimeError string \<comment> \<open>raised by the capability check of \<^verbatim>\<open>extract_geotiff_data\<close>\<close>
  | RasterioIOError     \<comment> \<open>\<^verbatim>\<open>rasterio.open\<close> cannot read the file\<close>
  | OSError             \<comment> \<open>\<^verbatim>\<open>Image.open\<close> cannot read the file\<close>
  | IndexError          \<comment> \<open>\<^verbatim>\<open>data[0]\<close> on an array without bands\<close>
  | ZeroDivisionError   \<comment> \<open>\<^verbatim>\<open>max_dim / img.width\<close> on an image without columns\<close>
  | InvalidCast         \<comment> \<open>not an exception: a NaN reaches \<^verbatim>\<open>astype(np.uint8)\<close>\<close>

section \<open>gpx_parser.py\<close>

subsection \<open>The document\<close>

text \<open>
  What \<^verbatim>\<open>parse_gpx\<close> reads of the element tree: the text of the first
  \<^verbatim>\<open>trk/name\<close> element and, for every \<^verbatim>\<open>trkpt\<close> in document order, the
  \<^verbatim>\<open>lat\<close> and \<^verbatim>\<open>lon\<close> attributes (\<^verbatim>\<open>trkpt.get\<close> gives \<^verbatim>\<open>None\<close> for a
  missing attribute) and the \<^verbatim>\<open>ele\<close> child (absent, or present with a text
  that may itself be \<^verbatim>\<open>None\<close>).
\<close>

record trkpt =
  lat_attr :: "string option"
  lon_attr :: "string option"
  ele_elem :: "string option option"

record gpx_root =
  name_elem :: "string option option"
  trkpts :: "trkpt list"

datatype xml_file = NotWellFormed | Tree gpx_root

type_synonym filesystem = "string \<Rightarrow> xml_file option"

definition ET_parse :: "filesystem \<Rightarrow> string \<Rightarrow> error + gpx_root" where
  "ET_parse fs file_path =
     (case fs file_path of
        None \<Rightarrow> Inl FileNotFoundError
      | Some NotWellFormed \<Rightarrow> Inl ParseError
      | Some (Tree root_elem) \<Rightarrow> Inr root_elem)"

text \<open>
  A Python float, and the comparisons \<^verbatim>\<open><\<close>, \<^verbatim>\<open>>\<close>, \<^verbatim>\<open><=\<close> and
  \<^verbatim>\<open>>=\<close> on floats: every comparison with NaN is false, NaN with itself
  included.
\<close>

datatype pyfloat = Finite rat | PosInf | NegInf | NaN

fun py_lt :: "pyfloat \<Rightarrow> pyfloat \<Rightarrow> bool" where
  "py_lt NaN y = False"
| "py_lt x NaN = False"
| "py_lt (Finite a) (Finite b) = (a < b)"
| "py_lt (Finite a) PosInf = True"
| "py_lt (Finite a) NegInf = False"
| "py_lt PosInf y = False"
| "py_lt NegInf NegInf = False"
| "py_lt NegInf y = True"

definition py_gt :: "pyfloat \<Rightarrow> pyfloat \<Rightarrow> bool" where
  "py_gt x y = py_lt y x"

definition py_le :: "pyfloat \<Rightarrow> pyfloat \<Rightarrow> bool" where
  "py_le x y = (x \<noteq> NaN \<and> y \<noteq> NaN \<and> \<not> py_lt y x)"


text \<open>
  \<^verbatim>\<open>float(x)\<close>: a \<^verbatim>\<open>TypeError\<close> on \<^verbatim>\<open>None\<close>, a \<^verbatim>\<open>ValueError\<close> on a string
  that is not a number. Which strings are numbers, and which float each denotes
  (\<^verbatim>\<open>'nan'\<close> and \<^verbatim>\<open>'inf'\<close> among them), is the parameter \<open>strtod\<close>.
\<close>

type_synonym strtod = "string \<Rightarrow> pyfloat option"

definition py_float :: "strtod \<Rightarrow> string option \<Rightarrow> error + pyfloat" where
  "py_float strtod x =
     (case x of
        None \<Rightarrow> Inl TypeError
      | Some s \<Rightarrow> (case strtod s of None \<Rightarrow> Inl ValueError | Some v \<Rightarrow> Inr v))"

subsection \<open>The loop over the track points (lines 42-50)\<close>

fun read_trkpts ::
  "strtod \<Rightarrow> trkpt list \<Rightarrow> pyfloat list \<times> pyfloat list \<times> pyfloat list
     \<Rightarrow> error + (pyfloat list \<times> pyfloat list \<times> pyfloat list)"
where
  "read_trkpts strtod [] acc = Inr acc"
| "read_trkpts strtod (p # ps) (all_lats, all_lons, all_eles) =
     (case py_float strtod (lat_attr p) of
        Inl e \<Rightarrow> Inl e
      | Inr lat \<Rightarrow>
     (case py_float strtod (lon_attr p) of
        Inl e \<Rightarrow> Inl e
      | Inr lon \<Rightarrow>
     (case (case ele_elem p of None \<Rightarrow> Inr (Finite 0) | Some t \<Rightarrow> py_float strtod t) of
        Inl e \<Rightarrow> Inl e
      | Inr ele \<Rightarrow>
          read_trkpts strtod ps (all_lats @ [lat], all_lons @ [lon], all_eles @ [ele]))))"

subsection \<open>Decimation (lines 52-67)\<close>

text \<open>
  \<^verbatim>\<open>range(i, n, s)\<close>, as the list of its values. A negative step counts down, so
  from 0 to a non-negative \<open>n\<close> it yields nothing; step 0 raises before the loop
  starts and is handled by the caller.
\<close>

function py_range :: "int \<Rightarrow> int \<Rightarrow> int \<Rightarrow> int list" where
  "py_range i n s = (if 0 < s \<and> i < n then i # py_range (i + s) n s else [])"
  by pat_completeness auto
termination
  by (relation "measure (\<lambda>(i, n, s). nat (n - i))") auto

declare py_range.simps [simp del]

record point =
  lat :: pyfloat
  lon :: pyfloat
  ele :: pyfloat

definition decimate ::
  "pyfloat list \<Rightarrow> pyfloat list \<Rightarrow> pyfloat list \<Rightarrow> int \<Rightarrow> point list"
where
  "decimate all_lats all_lons all_eles simplify_factor =
     (let total_points = int (length all_lats);
          points = map (\<lambda>i. \<lparr>lat = all_lats ! nat i, lon = all_lons ! nat i,
                              ele = all_eles ! nat i\<rparr>)
                       (py_range 0 total_points simplify_factor)
      in if total_points > 0 \<and> (total_points - 1) mod simplify_factor \<noteq> 0
         then points @ [\<lparr>lat = last all_lats, lon = last all_lons, ele = last all_eles\<rparr>]
         else points)"

subsection \<open>Bounds (lines 69-83)\<close>

text \<open>
  The builtins \<^verbatim>\<open>max\<close> and \<^verbatim>\<open>min\<close> run through the list and replace the
  element kept so far by an item that compares greater (\<^verbatim>\<open>item > m\<close>) or less
  (\<^verbatim>\<open>item < m\<close>), so a NaN is never taken and, once kept, never given up.
  They are called on non-empty lists only (the guard \<^verbatim>\<open>if all_lats\<close>); on the
  empty list they raise, which is the \<open>Inl\<close> here.
\<close>

definition py_max :: "pyfloat list \<Rightarrow> error + pyfloat" where
  "py_max xs =
     (case xs of
        [] \<Rightarrow> Inl ValueError
      | x # rest \<Rightarrow> Inr (fold (\<lambda>item m. if py_gt item m then item else m) rest x))"

definition py_min :: "pyfloat list \<Rightarrow> error + pyfloat" where
  "py_min xs =
     (case xs of
        [] \<Rightarrow> Inl ValueError
      | x # rest \<Rightarrow> Inr (fold (\<lambda>item m. if py_lt item m then item else m) rest x))"

record 'a geo_bounds =
  north :: 'a
  south :: 'a
  east :: 'a
  west :: 'a

record elevation_range =
  ele_min :: pyfloat
  ele_max :: pyfloat

definition track_bounds ::
  "pyfloat list \<Rightarrow> pyfloat list \<Rightarrow> pyfloat list
     \<Rightarrow> error + (pyfloat geo_bounds \<times> elevation_range)"
where
  "track_bounds all_lats all_lons all_eles =
     (if all_lats \<noteq> [] then
        (case (py_max all_lats, py_min all_lats, py_max all_lons, py_min all_lons,
               py_min all_eles, py_max all_eles) of
           (Inr n, Inr s, Inr e, Inr w, Inr lo, Inr hi) \<Rightarrow>
             Inr (\<lparr>north = n, south = s, east = e, west = w\<rparr>,
                  \<lparr>ele_min = lo, ele_max = hi\<rparr>)
         | _ \<Rightarrow> Inl ValueError)
      else
        Inr (\<lparr>north = Finite 0, south = Finite 0, east = Finite 0, west = Finite 0\<rparr>,
             \<lparr>ele_min = Finite 0, ele_max = Finite 0\<rparr>))"

subsection \<open>parse_gpx\<close>

record track =
  name :: "string option"
  points :: "point list"
  bounds :: "pyfloat geo_bounds"
  elevation :: elevation_range
  total_points :: int
  simplified_points :: int

definition parse_gpx :: "strtod \<Rightarrow> filesystem \<Rightarrow> string \<Rightarrow> int \<Rightarrow> error + track" where
  "parse_gpx strtod fs file_path simplify_factor =
     (case ET_parse fs file_path of
        Inl e \<Rightarrow> Inl e
      | Inr root_elem \<Rightarrow>
     (let track_name = (case name_elem root_elem of
                          Some text \<Rightarrow> text
                        | None \<Rightarrow> Some ''Unknown Track'')
      in case read_trkpts strtod (trkpts root_elem) ([], [], []) of
        Inl e \<Rightarrow> Inl e
      | Inr (all_lats, all_lons, all_eles) \<Rightarrow>
          if simplify_factor = 0 then Inl ValueError
          else
            (let pts = decimate all_lats all_lons all_eles simplify_factor
             in case track_bounds all_lats all_lons all_eles of
                  Inl e \<Rightarrow> Inl e
                | Inr (b, er) \<Rightarrow>
                    Inr \<lparr>name = track_name, points = pts, bounds = b, elevation = er,
                         total_points = int (length all_lats),
                         simplified_points = int (length pts)\<rparr>)))"

section \<open>terrain.py\<close>

subsection \<open>Double-precision arithmetic\<close>

text \<open>
  Python's \<^verbatim>\<open>float\<close> and numpy's \<^verbatim>\<open>float64\<close> are IEEE binary64. Every
  arithmetic operation gives the exact result rounded to the nearest double, ties to
  the even significand. \<open>fl\<close> is that rounding on the rationals: \<open>find_ulp x 1\<close>
  is the power of two \<open>u\<close> with \<open>2^52 \<le> x / u < 2^53\<close>, the spacing of the doubles
  around \<open>x\<close>, and \<open>x\<close> is rounded to a multiple of \<open>u\<close>. The exponent is
  not bounded: overflow to \<^verbatim>\<open>inf\<close> (beyond \<open>1.8e308\<close>) and the subnormal range
  (below \<open>2.2e-308\<close>) are not modelled.
\<close>

definition round_half_even :: "rat \<Rightarrow> int" where
  "round_half_even y =
     (let f = \<lfloor>y\<rfloor>; d = y - of_int f
      in if d < 1 / 2 then f else if 1 / 2 < d then f + 1 else if even f then f else f + 1)"

function find_ulp :: "rat \<Rightarrow> rat \<Rightarrow> rat" where
  "find_ulp x u =
     (if 0 < x \<and> 0 < u then
        (if 2 ^ 53 \<le> x / u then find_ulp x (2 * u)
         else if x / u < 2 ^ 52 then find_ulp x (u / 2)
         else u)
      else u)"
  by pat_completeness auto
termination
proof (relation "measure (\<lambda>(x :: rat, u :: rat).
         nat (if 2 ^ 53 \<le> x / u then \<lfloor>x / u\<rfloor> else \<lfloor>2 ^ 52 * u / x\<rfloor>))")
  show "wf (measure (\<lambda>(x :: rat, u :: rat).
         nat (if 2 ^ 53 \<le> x / u then \<lfloor>x / u\<rfloor> else \<lfloor>2 ^ 52 * u / x\<rfloor>)))"
    by simp
next
  have half: "\<lfloor>y / 2\<rfloor> < \<lfloor>y\<rfloor>" if "1 \<le> y" for y :: rat
  proof (cases "y < 2")
    case True
    have "\<lfloor>y / 2\<rfloor> = 0"
      using that True by (intro floor_unique) simp_all
    moreover have "1 \<le> \<lfloor>y\<rfloor>" using that by (simp add: le_floor_iff)
    ultimately show ?thesis by simp
  next
    case False
    have "of_int \<lfloor>y / 2\<rfloor> \<le> y / 2" by (rule of_int_floor_le)
    also have "\<dots> \<le> y - 1" using False by simp
    also have "\<dots> < of_int \<lfloor>y\<rfloor>" by linarith
    finally show ?thesis by (simp only: of_int_less_iff)
  qed
  {
    fix x u :: rat
    assume a: "0 < x \<and> 0 < u" and b: "2 ^ 53 \<le> x / u"
    let ?y = "x / u"
    have h: "x / (2 * u) = ?y / 2" by simp
    have y: "1 \<le> ?y" using b by (rule order_trans [rotated]) simp
    have "\<lfloor>?y / 2\<rfloor> < \<lfloor>?y\<rfloor>" using y by (rule half)
    moreover have "2 ^ 52 * (2 * u) / x = 2 ^ 53 / ?y" using a by simp
    moreover have "2 ^ 53 / ?y \<le> 1" using a b by (simp add: field_simps)
    then have "\<lfloor>2 ^ 53 / ?y\<rfloor> \<le> 1" by linarith
    moreover have "2 \<le> \<lfloor>?y\<rfloor>" using b by (simp add: le_floor_iff)
    ultimately show "((x, 2 * u), (x, u)) \<in> measure (\<lambda>(x :: rat, u :: rat).
         nat (if 2 ^ 53 \<le> x / u then \<lfloor>x / u\<rfloor> else \<lfloor>2 ^ 52 * u / x\<rfloor>))"
      using b by (simp only: in_measure prod.case h if_True split: if_splits) linarith
  next
    fix x u :: rat
    assume a: "0 < x \<and> 0 < u" and b: "\<not> 2 ^ 53 \<le> x / u" and c: "x / u < 2 ^ 52"
    let ?z = "2 ^ 52 * u / x"
    have z: "1 \<le> ?z" using a c by (simp add: field_simps)
    have h: "2 ^ 52 * (u / 2) / x = ?z / 2" by simp
    have e: "x / (u / 2) = 2 * (x / u)" by simp
    have "2 * (x / u) < 2 * 2 ^ 52" using c by (rule mult_strict_left_mono) simp
    also have "(2::rat) * 2 ^ 52 = 2 ^ 53" by simp
    finally have n: "\<not> 2 ^ 53 \<le> x / (u / 2)" by (simp only: e not_le)
    have "\<lfloor>?z / 2\<rfloor> < \<lfloor>?z\<rfloor>" using z by (rule half)
    moreover have "0 < \<lfloor>?z\<rfloor>" using z by linarith
    ultimately show "((x, u / 2), (x, u)) \<in> measure (\<lambda>(x :: rat, u :: rat).
         nat (if 2 ^ 53 \<le> x / u then \<lfloor>x / u\<rfloor> else \<lfloor>2 ^ 52 * u / x\<rfloor>))"
      using b n by (simp only: in_measure prod.case h if_False)
  }
qed

declare find_ulp.simps [simp del]

definition fl :: "rat \<Rightarrow> rat" where
  "fl x = (if x = 0 then 0
           else (let u = find_ulp \<bar>x\<bar> 1
                 in sgn x * of_int (round_half_even (\<bar>x\<bar> / u)) * u))"

text \<open>\<^verbatim>\<open>int(x)\<close> on a float truncates towards zero.\<close>

definition py_int :: "rat \<Rightarrow> int" where
  "py_int x = (if 0 \<le> x then \<lfloor>x\<rfloor> else \<lceil>x\<rceil>)"

subsection \<open>Arrays and images\<close>

text \<open>
  A two-dimensional array is the list of its rows. \<^verbatim>\<open>src.read()\<close> returns the
  bands of the raster, all of one shape and one dtype. The code asks of the dtype only
  whether it is \<^verbatim>\<open>np.uint8\<close>: an 8-bit array holds 8-bit words; an array of any
  other dtype holds its values as rationals, each of them a value that
  \<^verbatim>\<open>astype(float)\<close> keeps (every integer dtype up to 32 bits, \<^verbatim>\<open>float32\<close>
  and \<^verbatim>\<open>float64\<close> qualify), and its arithmetic is carried out in doubles.
\<close>

type_synonym 'a grid = "'a list list"
type_synonym uint8 = "8 word"
type_synonym rgb = "uint8 \<times> uint8 \<times> uint8"

datatype ndarray = UInt8Array "uint8 grid list" | OtherArray "rat grid list"

text \<open>A PIL image: its size and its pixels, row by row.\<close>

record 'p image =
  width :: nat
  height :: nat
  pixels :: "'p grid"

definition np_stack3 :: "'a grid \<Rightarrow> 'a grid \<Rightarrow> 'a grid \<Rightarrow> ('a \<times> 'a \<times> 'a) grid" where
  \<comment> \<open>\<^verbatim>\<open>np.stack([r, g, b], axis=-1)\<close>\<close>
  "np_stack3 r g b = map (\<lambda>(rr, gr, br). zip rr (zip gr br)) (zip r (zip g b))"

definition Image_fromarray :: "'p grid \<Rightarrow> 'p image" where
  "Image_fromarray a =
     \<lparr>width = (case a of [] \<Rightarrow> 0 | r # _ \<Rightarrow> length r), height = length a, pixels = a\<rparr>"

definition astype_uint8 :: "rat \<Rightarrow> uint8" where
  \<comment> \<open>the cast truncates; a value outside \<open>0..255\<close> would wrap\<close>
  "astype_uint8 v = word_of_int (py_int v)"

definition np_clip :: "rat \<Rightarrow> rat \<Rightarrow> rat \<Rightarrow> rat" where
  "np_clip v lo hi = min (max v lo) hi"

subsection \<open>Band handling (lines 52-72)\<close>

text \<open>
  Three bands or more, not 8-bit (line 57): one minimum and one maximum over the whole
  stack. The arithmetic is that of a \<^verbatim>\<open>float64\<close> array. On an array of another
  dtype numpy subtracts in that dtype (a signed integer difference can wrap, a
  \<^verbatim>\<open>float32\<close> one is rounded to 24 bits), so the pixel values of such an array can
  differ from the ones given here; the divisor is zero for the same arrays, those with
  \<open>max = min\<close>. When it is zero so is every dividend, and numpy computes
  \<^verbatim>\<open>0/0 = nan\<close> for every pixel, with a warning and no exception; the cast of NaN
  to \<^verbatim>\<open>uint8\<close> has no defined value, so the code goes on with a texture of
  unspecified pixels. That outcome is \<open>Inl InvalidCast\<close>: the marker of a result
  that is not defined, not of a raised exception.
\<close>

definition stack_values :: "(rat \<times> rat \<times> rat) grid \<Rightarrow> rat list" where
  "stack_values a = concat (map (\<lambda>(r, g, b). [r, g, b]) (concat a))"

definition rescale_stack :: "(rat \<times> rat \<times> rat) grid \<Rightarrow> error + rgb grid" where
  "rescale_stack a =
     (case stack_values a of
        [] \<Rightarrow> Inl ValueError
      | v # vs \<Rightarrow>
          (let lo = fold min vs v; hi = fold max vs v; d = fl (hi - lo);
               f = (\<lambda>x. astype_uint8 (fl (fl (fl (x - lo) / d) * 255)))
           in if d = 0 then Inl InvalidCast
              else Inr (map (map (\<lambda>(r, g, b). (f r, f g, f b))) a)))"

text \<open>Fewer than three bands (lines 60-72): the first band alone.\<close>

definition valid_pixels :: "rat grid \<Rightarrow> rat option \<Rightarrow> rat list" where
  \<comment> \<open>\<^verbatim>\<open>band[valid_mask]\<close>\<close>
  "valid_pixels band nodata =
     filter (\<lambda>v. case nodata of None \<Rightarrow> True | Some nd \<Rightarrow> v \<noteq> nd) (concat band)"

definition b_min :: "rat grid \<Rightarrow> rat option \<Rightarrow> rat" where
  "b_min band nodata = (case valid_pixels band nodata of [] \<Rightarrow> 0 | v # vs \<Rightarrow> fold min vs v)"

definition b_max :: "rat grid \<Rightarrow> rat option \<Rightarrow> rat" where
  "b_max band nodata = (case valid_pixels band nodata of [] \<Rightarrow> 1 | v # vs \<Rightarrow> fold max vs v)"

definition normalized :: "rat \<Rightarrow> rat \<Rightarrow> rat \<Rightarrow> rat" where
  \<comment> \<open>lines 66-69, for one pixel\<close>
  "normalized lo hi v = (if hi > lo then fl (fl (fl (v - lo) / fl (hi - lo)) * 255) else 0)"

definition normalize_pixel :: "rat \<Rightarrow> rat \<Rightarrow> rat \<Rightarrow> uint8" where
  \<comment> \<open>line 71, for one pixel\<close>
  "normalize_pixel lo hi v = astype_uint8 (np_clip (normalized lo hi v) 0 255)"

definition normalize_band :: "rat grid \<Rightarrow> rat option \<Rightarrow> rgb grid" where
  "normalize_band band nodata =
     (let normalized = map (map (normalize_pixel (b_min band nodata) (b_max band nodata))) band
      in np_stack3 normalized normalized normalized)"

definition to_rgb :: "ndarray \<Rightarrow> rat option \<Rightarrow> error + rgb grid" where
  "to_rgb data nodata =
     (case data of
        UInt8Array bands \<Rightarrow>
          if length bands \<ge> 3 then Inr (np_stack3 (bands ! 0) (bands ! 1) (bands ! 2))
          else (case bands of
                  [] \<Rightarrow> Inl IndexError
                | b0 # _ \<Rightarrow> Inr (normalize_band (map (map (\<lambda>v. of_nat (unat v))) b0) nodata))
      | OtherArray bands \<Rightarrow>
          if length bands \<ge> 3 then rescale_stack (np_stack3 (bands ! 0) (bands ! 1) (bands ! 2))
          else (case bands of
                  [] \<Rightarrow> Inl IndexError
                | b0 # _ \<Rightarrow> Inr (normalize_band b0 nodata)))"

subsection \<open>Dimension cap (lines 78-83 and 121-126)\<close>

text \<open>
  What the code leaves to Pillow: \<^verbatim>\<open>resize\<close> returns an image of the requested size
  and refuses a size with a side below 1; the values of the Lanczos filter are the
  parameter \<open>lanczos\<close>.
\<close>

definition Image_resize ::
  "('p image \<Rightarrow> nat \<times> nat \<Rightarrow> 'p grid) \<Rightarrow> 'p image \<Rightarrow> int \<times> int \<Rightarrow> error + 'p image"
where
  "Image_resize lanczos img sz =
     (case sz of (w, h) \<Rightarrow>
        if w < 1 \<or> h < 1 then Inl ValueError
        else Inr \<lparr>width = nat w, height = nat h, pixels = lanczos img (nat w, nat h)\<rparr>)"

definition max_dim :: nat where
  "max_dim = 2048"

definition new_size :: "nat \<Rightarrow> nat \<Rightarrow> int \<times> int" where
  "new_size w h =
     (let ratio = min (fl (of_nat max_dim / of_nat w)) (fl (of_nat max_dim / of_nat h))
      in (py_int (fl (fl (of_nat w) * ratio)), py_int (fl (fl (of_nat h) * ratio))))"

definition resize_for_web ::
  "('p image \<Rightarrow> nat \<times> nat \<Rightarrow> 'p grid) \<Rightarrow> 'p image \<Rightarrow> error + 'p image"
where
  "resize_for_web lanczos img =
     (if width img > max_dim \<or> height img > max_dim then
        (if width img = 0 \<or> height img = 0 then Inl ZeroDivisionError
         else Image_resize lanczos img (new_size (width img) (height img)))
      else Inr img)"

subsection \<open>extract_geotiff_data\<close>

text \<open>
  What rasterio exposes of an open dataset, and the file system as the function sees
  it. \<open>opened\<close> logs every path given to \<^verbatim>\<open>rasterio.open\<close>.
\<close>

record raster_src =
  crs :: string
  src_bounds :: "rat \<times> rat \<times> rat \<times> rat"
  nodata :: "rat option"
  data :: ndarray

record world =
  raster_files :: "string \<Rightarrow> raster_src option"
  opened :: "string list"

text \<open>
  The library functions whose results the code passes on unchanged: the reprojection
  of the bounds, the Lanczos filter and the JPEG encoder followed by base64.
\<close>

record libs =
  transform_bounds :: "string \<Rightarrow> string \<Rightarrow> rat \<times> rat \<times> rat \<times> rat \<Rightarrow> rat \<times> rat \<times> rat \<times> rat"
  LANCZOS :: "rgb image \<Rightarrow> nat \<times> nat \<Rightarrow> rgb grid"
  jpeg_b64 :: "rgb image \<Rightarrow> string"

record texture =
  texture_b64 :: string
  out_width :: nat
  out_height :: nat
  original_width :: nat
  original_height :: nat

record geotiff = texture +
  raster_bounds :: "rat geo_bounds"

text \<open>Lines 49-83: the pixels of the texture and the size before the cap.\<close>

definition raster_image :: "libs \<Rightarrow> raster_src \<Rightarrow> error + (rgb image \<times> nat \<times> nat)" where
  "raster_image lib src =
     (case to_rgb (data src) (nodata src) of
        Inl e \<Rightarrow> Inl e
      | Inr rgb \<Rightarrow>
          (let img = Image_fromarray rgb
           in case resize_for_web (LANCZOS lib) img of
                Inl e \<Rightarrow> Inl e
              | Inr img' \<Rightarrow> Inr (img', width img, height img)))"

text \<open>
  The texture read back as a raster: an 8-bit array of three bands, the red, green and
  blue planes of the image. \<open>array_size\<close> is the \<^verbatim>\<open>(width, height)\<close> of
  the bands of an array.
\<close>

definition raster_of_texture ::
  "string \<Rightarrow> rat \<times> rat \<times> rat \<times> rat \<Rightarrow> rat option \<Rightarrow> rgb image \<Rightarrow> raster_src"
where
  "raster_of_texture c b nd img =
     \<lparr>crs = c, src_bounds = b, nodata = nd,
      data = UInt8Array [map (map fst) (pixels img),
                         map (map (fst \<circ> snd)) (pixels img),
                         map (map (snd \<circ> snd)) (pixels img)]\<rparr>"

definition array_size :: "ndarray \<Rightarrow> nat \<times> nat" where
  "array_size a =
     (case a of
        UInt8Array bands \<Rightarrow>
          (case bands of [] \<Rightarrow> (0, 0)
           | b0 # _ \<Rightarrow> (width (Image_fromarray b0), height (Image_fromarray b0)))
      | OtherArray bands \<Rightarrow>
          (case bands of [] \<Rightarrow> (0, 0)
           | b0 # _ \<Rightarrow> (width (Image_fromarray b0), height (Image_fromarray b0))))"

definition extract_geotiff_data ::
  "bool \<Rightarrow> libs \<Rightarrow> world \<Rightarrow> string \<Rightarrow> (error + geotiff) \<times> world"
where
  "extract_geotiff_data HAS_RASTERIO lib w file_path =
     (if \<not> HAS_RASTERIO then
        (Inl (RuntimeError ''rasterio required for GeoTIFF processing''), w)
      else
        (let w' = w\<lparr>opened := opened w @ [file_path]\<rparr>
         in case raster_files w file_path of
              None \<Rightarrow> (Inl RasterioIOError, w')
            | Some src \<Rightarrow>
                (case transform_bounds lib (crs src) ''EPSG:4326'' (src_bounds src) of
                   (b0, b1, b2, b3) \<Rightarrow>
                     (case raster_image lib src of
                        Inl e \<Rightarrow> (Inl e, w')
                      | Inr (img, ow, oh) \<Rightarrow>
                          (Inr \<lparr>texture_b64 = jpeg_b64 lib img,
                                out_width = width img, out_height = height img,
                                original_width = ow, original_height = oh,
                                raster_bounds = \<lparr>north = b3, south = b1, east = b2, west = b0\<rparr>\<rparr>,
                           w')))))"

subsection \<open>extract_from_image\<close>



subsection \<open>process_heightmap\<close>

definition Image_new :: "nat \<times> nat \<Rightarrow> 'p \<Rightarrow> 'p image" where
  "Image_new sz c =
     (case sz of (w, h) \<Rightarrow> \<lparr>width = w, height = h, pixels = replicate h (replicate w c)\<rparr>)"

text \<open>
  \<^verbatim>\<open>dst.paste(src, (ox, oy))\<close>: the pixels of \<open>src\<close> replace those of \<open>dst\<close> in
  the box whose upper left corner is \<open>(ox, oy)\<close>; the rest of \<open>dst\<close> stays.
\<close>

definition Image_paste :: "'p image \<Rightarrow> 'p image \<Rightarrow> nat \<times> nat \<Rightarrow> 'p image" where
  "Image_paste dst src offset =
     (case offset of (ox, oy) \<Rightarrow>
        dst\<lparr>pixels :=
          map (\<lambda>y. map (\<lambda>x. if ox \<le> x \<and> x < ox + width src \<and> oy \<le> y \<and> y < oy + height src
                            then pixels src ! (y - oy) ! (x - ox)
                            else pixels dst ! y ! x)
                       [0..<width dst])
              [0..<height dst]\<rparr>)"

text \<open>
  Pillow's part: the conversion to mode L (\<open>convert_l\<close>), the Gaussian blur, which
  keeps the size (\<open>blur\<close> gives its pixels), the Lanczos filter and the PNG encoder
  followed by base64.
\<close>

record 'm heightmap_libs =
  convert_l :: "'m \<Rightarrow> uint8 image"
  blur :: "uint8 image \<Rightarrow> uint8 grid"
  LANCZOS_l :: "uint8 image \<Rightarrow> nat \<times> nat \<Rightarrow> uint8 grid"
  png_b64 :: "uint8 image \<Rightarrow> string"

text \<open>Lines 153-158.\<close>

definition make_square :: "uint8 image \<Rightarrow> uint8 image" where
  "make_square img =
     (let w = width img; h = height img;
          max_dim = max w h;
          square = Image_new (max_dim, max_dim) 0;
          offset = ((max_dim - w) div 2, (max_dim - h) div 2)
      in Image_paste square img offset)"

text \<open>
  Lines 148-161: the image that is encoded. \<open>target_side\<close> is the parameter
  \<^verbatim>\<open>target_size\<close> of the source.
\<close>

definition heightmap_image ::
  "'m heightmap_libs \<Rightarrow> (string \<Rightarrow> 'm option) \<Rightarrow> string \<Rightarrow> int \<Rightarrow> error + uint8 image"
where
  "heightmap_image lib files file_path target_side =
     (case files file_path of
        None \<Rightarrow> Inl OSError
      | Some f \<Rightarrow>
          (let img = convert_l lib f;
               img = img\<lparr>pixels := blur lib img\<rparr>;
               square = make_square img
           in Image_resize (LANCZOS_l lib) square (target_side, target_side)))"

definition process_heightmap ::
  "'m heightmap_libs \<Rightarrow> (string \<Rightarrow> 'm option) \<Rightarrow> string \<Rightarrow> int \<Rightarrow> error + string"
where
  "process_heightmap lib files file_path target_side =
     (case heightmap_image lib files file_path target_side of
        Inl e \<Rightarrow> Inl e
      | Inr final \<Rightarrow> Inr (png_b64 lib final))"

section \<open>Example inputs\<close>

subsection \<open>Track files\<close>

definition example_strtod :: strtod where
  "example_strtod s =
     (if s = ''47.5'' then Some (Finite (95 / 2)) else if s = ''48'' then Some (Finite 48)
      else if s = ''8.25'' then Some (Finite (33 / 4)) else if s = ''9'' then Some (Finite 9)
      else if s = ''1200'' then Some (Finite 1200) else if s = ''nan'' then Some NaN
      else None)"

definition example_track :: gpx_root where
  "example_track =
     \<lparr>name_elem = Some (Some ''Ridge''),
      trkpts =
        [\<lparr>lat_attr = Some ''47.5'', lon_attr = Some ''8.25'', ele_elem = Some (Some ''1200'')\<rparr>,
         \<lparr>lat_attr = Some ''48'', lon_attr = Some ''9'', ele_elem = None\<rparr>,
         \<lparr>lat_attr = Some ''47.5'', lon_attr = Some ''9'', ele_elem = Some (Some ''1200'')\<rparr>]\<rparr>"

definition example_files :: filesystem where
  "example_files p =
     (if p = ''track.gpx'' then Some (Tree example_track)
      else if p = ''empty.gpx'' then Some (Tree \<lparr>name_elem = None, trkpts = []\<rparr>)
      else if p = ''nolat.gpx'' then
        Some (Tree \<lparr>name_elem = None,
                    trkpts = [\<lparr>lat_attr = Some ''48'', lon_attr = Some ''9'', ele_elem = None\<rparr>,
                              \<lparr>lat_attr = None, lon_attr = Some ''9'', ele_elem = None\<rparr>]\<rparr>)
      else if p = ''nan.gpx'' then
        Some (Tree \<lparr>name_elem = None,
                    trkpts = [\<lparr>lat_attr = Some ''nan'', lon_attr = Some ''9'', ele_elem = None\<rparr>]\<rparr>)
      else if p = ''broken.gpx'' then Some NotWellFormed
      else None)"

subsection \<open>Rasters and images\<close>

definition example_libs :: libs where
  "example_libs =
     \<lparr>transform_bounds = (\<lambda>src_crs dst_crs b. b),
      LANCZOS = (\<lambda>img sz. case sz of (w, h) \<Rightarrow> replicate h (replicate w (0, 0, 0))),
      jpeg_b64 = (\<lambda>img. ''/9j/4AAQ'')\<rparr>"

definition example_dem :: raster_src where
  "example_dem =
     \<lparr>crs = ''EPSG:32632'', src_bounds = (8, 47, 9, 48), nodata = Some (- 9999),
      data = OtherArray [[[0, 500], [1000, - 9999]]]\<rparr>"


definition example_rgb8 :: raster_src where
  "example_rgb8 =
     \<lparr>crs = ''EPSG:4326'', src_bounds = (8, 47, 9, 48), nodata = None,
      data = UInt8Array [[[1, 2]], [[3, 4]], [[5, 6]]]\<rparr>"

definition example_world :: world where
  "example_world =
     \<lparr>raster_files = (\<lambda>p. if p = ''dem.tif'' then Some example_dem else None),
      opened = []\<rparr>"



definition example_heightmap_libs :: "(uint8 image) heightmap_libs" where
  "example_heightmap_libs =
     \<lparr>convert_l = (\<lambda>f. f),
      blur = pixels,
      LANCZOS_l = (\<lambda>img sz. case sz of (w, h) \<Rightarrow> replicate h (replicate w 0)),
      png_b64 = (\<lambda>img. ''iVBORw0KGgo'')\<rparr>"

definition example_heightmap :: "uint8 image" where
  "example_heightmap =
     \<lparr>width = 300, height = 200, pixels = replicate 200 (replicate 300 7)\<rparr>"

section \<open>Properties of parse_gpx\<close>

lemma read_trkpts_lengths:
  "read_trkpts strtod ps (a, b, c) = Inr (a', b', c') \<Longrightarrow>
   length a' = length a + length ps \<and> length b' = length b + length ps \<and>
   length c' = length c + length ps"
proof (induction ps arbitrary: a b c)
  case Nil
  then show ?case by simp
next
  case (Cons p ps)
  then show ?case
    by (auto split: sum.splits)
qed

lemma py_range_length:
  "0 < s \<Longrightarrow> length (py_range i n s) = nat (- ((i - n) div s))"
proof (induction i n s rule: py_range.induct)
  case (1 i n s)
  show ?case
  proof (cases "i < n")
    case True
    have d: "(i + s - n) div s = (i - n) div s + 1"
      using 1(2) by (metis add.commute add_diff_eq div_add_self1 less_irrefl)
    have neg: "(i - n) div s < 0"
      using True 1(2) by (simp add: div_neg_pos_less0)
    have "length (py_range i n s) = Suc (length (py_range (i + s) n s))"
      using True 1(2) by (subst py_range.simps) simp
    also have "\<dots> = Suc (nat (- ((i + s - n) div s)))"
      using 1(1) True 1(2) by simp
    also have "\<dots> = nat (- ((i - n) div s))"
      using d neg by simp
    finally show ?thesis .
  next
    case False
    then have "0 \<le> (i - n) div s" using 1(2) by (simp add: pos_imp_zdiv_nonneg_iff)
    with False show ?thesis by (subst py_range.simps) simp
  qed
qed

lemma py_range_last:
  "0 < s \<Longrightarrow> i < n \<Longrightarrow> last (py_range i n s) = i + ((n - 1 - i) div s) * s"
proof (induction i n s rule: py_range.induct)
  case (1 i n s)
  show ?case
  proof (cases "i + s < n")
    case True
    have d: "(n - 1 - i) div s = (n - 1 - (i + s)) div s + 1"
      using 1(2) by (metis add.commute diff_add_cancel diff_diff_eq div_add_self1 less_irrefl)
    have ne: "py_range (i + s) n s \<noteq> []"
      using True 1(2) by (subst py_range.simps) simp
    have "last (py_range i n s) = last (py_range (i + s) n s)"
      using 1(2,3) ne by (subst py_range.simps) simp
    also have "\<dots> = i + s + ((n - 1 - (i + s)) div s) * s"
      using 1(1) 1(2,3) True by simp
    also have "\<dots> = i + ((n - 1 - i) div s) * s"
      unfolding d by (simp add: algebra_simps)
    finally show ?thesis .
  next
    case False
    then have e: "py_range (i + s) n s = []" by (subst py_range.simps) simp
    have "(n - 1 - i) div s = 0" using False 1(2,3) by (simp add: div_pos_pos_trivial)
    moreover have "py_range i n s = [i]" using 1(2,3) e by (subst py_range.simps) simp
    ultimately show ?thesis by simp
  qed
qed

lemma py_range_nonempty: "0 < s \<Longrightarrow> i < n \<Longrightarrow> py_range i n s \<noteq> []"
  by (subst py_range.simps) simp



lemma py_le_total: "x \<noteq> NaN \<Longrightarrow> y \<noteq> NaN \<Longrightarrow> py_le x y \<or> py_le y x"
  by (cases x; cases y) (auto simp: py_le_def)





lemma py_max_returns: "xs \<noteq> [] \<Longrightarrow> \<exists>m. py_max xs = Inr m"
  by (cases xs) (simp_all add: py_max_def)

lemma py_min_returns: "xs \<noteq> [] \<Longrightarrow> \<exists>m. py_min xs = Inr m"
  by (cases xs) (simp_all add: py_min_def)



lemma read_trkpts_same_length:
  assumes "read_trkpts strtod ps ([], [], []) = Inr (a, b, c)"
  shows "length a = length ps" "length b = length a" "length c = length a"
  using read_trkpts_lengths [OF assms] by simp_all

lemma track_bounds_nonempty:
  assumes "a \<noteq> []" "length b = length a" "length c = length a"
  shows "\<exists>n s e w lo hi.
           py_max a = Inr n \<and> py_min a = Inr s \<and> py_max b = Inr e \<and> py_min b = Inr w \<and>
           py_min c = Inr lo \<and> py_max c = Inr hi \<and>
           track_bounds a b c =
             Inr (\<lparr>north = n, south = s, east = e, west = w\<rparr>, \<lparr>ele_min = lo, ele_max = hi\<rparr>)"
proof -
  from assms have ne: "b \<noteq> []" "c \<noteq> []" by auto
  obtain n s e w lo hi where
    "py_max a = Inr n" "py_min a = Inr s" "py_max b = Inr e" "py_min b = Inr w"
    "py_min c = Inr lo" "py_max c = Inr hi"
    using py_max_returns [OF assms(1)] py_min_returns [OF assms(1)]
      py_max_returns [OF ne(1)] py_min_returns [OF ne(1)]
      py_min_returns [OF ne(2)] py_max_returns [OF ne(2)] by blast
  then show ?thesis using assms(1) by (simp add: track_bounds_def)
qed

lemma track_bounds_empty:
  "track_bounds [] b c =
     Inr (\<lparr>north = Finite 0, south = Finite 0, east = Finite 0, west = Finite 0\<rparr>,
          \<lparr>ele_min = Finite 0, ele_max = Finite 0\<rparr>)"
  by (simp add: track_bounds_def)

lemma parse_gpx_returns:
  assumes "fs file_path = Some (Tree doc)"
    and "read_trkpts strtod (trkpts doc) ([], [], []) = Inr (a, b, c)"
    and "s \<noteq> 0"
  shows "\<exists>t. parse_gpx strtod fs file_path s = Inr t
           \<and> points t = decimate a b c s
           \<and> track_bounds a b c = Inr (bounds t, elevation t)
           \<and> total_points t = int (length a)
           \<and> simplified_points t = int (length (points t))"
proof -
  note len = read_trkpts_same_length [OF assms(2)]
  obtain bb er where tb: "track_bounds a b c = Inr (bb, er)"
  proof (cases "a = []")
    case True
    then show ?thesis using that track_bounds_empty [of b c] by blast
  next
    case False
    from track_bounds_nonempty [OF False len(2,3)] show ?thesis using that by blast
  qed
  show ?thesis
    using assms tb by (simp add: parse_gpx_def ET_parse_def Let_def)
qed

lemma decimate_last:
  assumes "a \<noteq> []" "length b = length a" "length c = length a" "1 \<le> s"
  shows "decimate a b c s \<noteq> [] \<and>
         last (decimate a b c s) = \<lparr>lat = last a, lon = last b, ele = last c\<rparr>"
proof (cases "(int (length a) - 1) mod s = 0")
  case False
  with assms(1) show ?thesis by (simp add: decimate_def Let_def)
next
  case True
  let ?n = "int (length a)"
  have n: "0 < ?n" using assms(1) by simp
  have s: "0 < s" using assms(4) by simp
  have ne: "py_range 0 ?n s \<noteq> []" using py_range_nonempty [OF s n] .
  have "last (py_range 0 ?n s) = (?n - 1) div s * s"
    using py_range_last [OF s n] by simp
  also have "\<dots> = ?n - 1" using True by (simp add: mod_eq_0_iff_dvd)
  finally have l: "nat (last (py_range 0 ?n s)) = length a - 1"
    using n by simp
  have bc: "b \<noteq> []" "c \<noteq> []" using assms by auto
  show ?thesis
    using True ne l assms bc
    by (simp add: decimate_def Let_def last_map last_conv_nth)
qed

lemma decimate_length:
  assumes "1 \<le> s"
  shows "int (length (decimate a b c s)) =
           \<lceil>real_of_int (int (length a)) / real_of_int s\<rceil>
           + (if (int (length a) - 1) mod s \<noteq> 0 \<and> int (length a) > 0 then 1 else 0)"
proof -
  let ?n = "int (length a)"
  have s: "0 < s" using assms by simp
  have "(- ?n) div s \<le> 0"
    using s by (metis div_nonpos_pos_le0 neg_le_0_iff_le of_nat_0_le_iff)
  then have "0 \<le> - ((0 - ?n) div s)" by simp
  then have "int (length (py_range 0 ?n s)) = - ((- ?n) div s)"
    using py_range_length [OF s, of 0 ?n] by simp
  also have "\<dots> = \<lceil>real_of_int ?n / real_of_int s\<rceil>"
    by (rule ceiling_divide_eq_div [symmetric])
  finally have L: "int (length (py_range 0 ?n s)) = \<lceil>real_of_int ?n / real_of_int s\<rceil>" .
  show ?thesis
  proof (cases "0 < ?n \<and> (?n - 1) mod s \<noteq> 0")
    case True
    then show ?thesis using L by (simp add: decimate_def Let_def)
  next
    case False
    then show ?thesis using L by (auto simp add: decimate_def Let_def)
  qed
qed


lemma example_track_read:
  "read_trkpts example_strtod (trkpts example_track) ([], [], []) =
     Inr ([Finite (95 / 2), Finite 48, Finite (95 / 2)], [Finite (33 / 4), Finite 9, Finite 9],
          [Finite 1200, Finite 0, Finite 1200])"
  by (simp add: example_track_def example_strtod_def py_float_def)

text \<open>
  C2. For every non-empty track and every stride \<open>s \<ge> 1\<close>, \<^verbatim>\<open>parse_gpx\<close> returns
  and the last point of the decimated sequence is the last point of the source track.
\<close>

theorem decimated_track_ends_at_last_source_point:
  assumes "fs file_path = Some (Tree doc)"
    and "read_trkpts strtod (trkpts doc) ([], [], []) = Inr (all_lats, all_lons, all_eles)"
    and "all_lats \<noteq> []"
    and "1 \<le> simplify_factor"
  shows "\<exists>t. parse_gpx strtod fs file_path simplify_factor = Inr t \<and> points t \<noteq> [] \<and>
             last (points t) = \<lparr>lat = last all_lats, lon = last all_lons, ele = last all_eles\<rparr>"
proof -
  note len = read_trkpts_same_length [OF assms(2)]
  have "simplify_factor \<noteq> 0" using assms(4) by simp
  from parse_gpx_returns [where fs = fs and file_path = file_path and doc = doc, OF assms(1,2) this] obtain t where
    t: "parse_gpx strtod fs file_path simplify_factor = Inr t"
       "points t = decimate all_lats all_lons all_eles simplify_factor" by blast
  show ?thesis
    using t decimate_last [OF assms(3) len(2,3) assms(4)] by simp
qed

theorem decimated_track_ends_at_last_source_point_witness:
  "\<exists>t. parse_gpx example_strtod example_files ''track.gpx'' 3 = Inr t \<and> points t \<noteq> [] \<and>
       last (points t) = \<lparr>lat = Finite (95 / 2), lon = Finite 9, ele = Finite 1200\<rparr>"
  using decimated_track_ends_at_last_source_point
          [of example_files "''track.gpx''" example_track example_strtod
              "[Finite (95 / 2), Finite 48, Finite (95 / 2)]" "[Finite (33 / 4), Finite 9, Finite 9]"
              "[Finite 1200, Finite 0, Finite 1200]" 3]
  by (simp add: example_files_def example_track_read)

text \<open>
  C3. For every track of \<open>count\<close> points and every stride \<open>s \<ge> 1\<close> (the contract of
  the extractor takes a positive stride), the decimated output has
  \<open>\<lceil>count / s\<rceil>\<close> points, plus one if and only if \<open>(count - 1) mod s \<noteq> 0\<close> and
  \<open>count > 0\<close>.
\<close>

theorem decimated_length:
  assumes "fs file_path = Some (Tree doc)"
    and "read_trkpts strtod (trkpts doc) ([], [], []) = Inr (all_lats, all_lons, all_eles)"
    and "1 \<le> s"
  shows "\<exists>t. parse_gpx strtod fs file_path s = Inr t \<and>
             total_points t = int (length (trkpts doc)) \<and>
             simplified_points t = int (length (points t)) \<and>
             int (length (points t)) =
               \<lceil>real_of_int (total_points t) / real_of_int s\<rceil>
               + (if (total_points t - 1) mod s \<noteq> 0 \<and> total_points t > 0 then 1 else 0)"
proof -
  note len = read_trkpts_same_length [OF assms(2)]
  have "s \<noteq> 0" using assms(3) by simp
  from parse_gpx_returns [where fs = fs and file_path = file_path and doc = doc, OF assms(1,2) this] obtain t where
    t: "parse_gpx strtod fs file_path s = Inr t"
       "points t = decimate all_lats all_lons all_eles s"
       "total_points t = int (length all_lats)"
       "simplified_points t = int (length (points t))" by blast
  show ?thesis
    using t len(1) decimate_length [OF assms(3), of all_lats all_lons all_eles]
    by (intro exI [of _ t]) (simp only: simp_thms)
qed

theorem decimated_length_witness:
  "\<exists>t. parse_gpx example_strtod example_files ''track.gpx'' 2 = Inr t \<and>
       total_points t = 3 \<and> simplified_points t = 2 \<and> length (points t) = 2"
proof -
  have f: "example_files ''track.gpx'' = Some (Tree example_track)"
    by (simp add: example_files_def)
  have n: "length (trkpts example_track) = 3" by (simp add: example_track_def)
  from decimated_length
         [where fs = example_files and file_path = "''track.gpx''" and s = 2,
          OF f example_track_read]
  show ?thesis by (auto simp add: n)
qed




lemma py_float_cases:
  "py_float strtod x = Inl TypeError \<or> py_float strtod x = Inl ValueError
     \<or> (\<exists>v. py_float strtod x = Inr v)"
  by (auto simp: py_float_def split: option.splits)

lemma py_float_None [simp]: "py_float strtod None = Inl TypeError"
  by (simp add: py_float_def)

lemma read_trkpts_append:
  "read_trkpts strtod (ps @ qs) acc =
     (case read_trkpts strtod ps acc of Inl e \<Rightarrow> Inl e | Inr acc' \<Rightarrow> read_trkpts strtod qs acc')"
proof (induction ps arbitrary: acc)
  case Nil
  show ?case by simp
next
  case (Cons p ps)
  obtain a b c where acc: "acc = (a, b, c)" by (cases acc)
  show ?case unfolding acc by (simp add: Cons.IH split: sum.splits)
qed

lemma read_trkpts_error_kind:
  "read_trkpts strtod ps acc = Inl e \<Longrightarrow> e = TypeError \<or> e = ValueError"
proof (induction ps arbitrary: acc)
  case Nil
  then show ?case by simp
next
  case (Cons p ps)
  obtain a b c where acc: "acc = (a, b, c)" by (cases acc)
  have e: "(case ele_elem p of None \<Rightarrow> Inr (Finite 0) | Some t \<Rightarrow> py_float strtod t) = Inl x
             \<Longrightarrow> x = TypeError \<or> x = ValueError" for x
    using py_float_cases [of strtod "the (ele_elem p)"] by (auto split: option.splits)
  show ?case
    using Cons.prems py_float_cases [of strtod "lat_attr p"] py_float_cases [of strtod "lon_attr p"]
      e Cons.IH
    unfolding acc by (auto split: sum.splits)
qed

lemma read_trkpts_missing_first:
  assumes "lat_attr p = None \<or> (\<exists>v. py_float strtod (lat_attr p) = Inr v) \<and> lon_attr p = None"
  shows "read_trkpts strtod (p # rest) acc = Inl TypeError"
proof -
  obtain a b c where acc: "acc = (a, b, c)" by (cases acc)
  show ?thesis unfolding acc using assms by auto
qed

lemma read_trkpts_missing:
  assumes "\<exists>p \<in> set ps. lat_attr p = None \<or> lon_attr p = None"
  shows "\<exists>e. read_trkpts strtod ps acc = Inl e"
  using assms
proof (induction ps arbitrary: acc)
  case Nil
  then show ?case by simp
next
  case (Cons p ps)
  obtain a b c where acc: "acc = (a, b, c)" by (cases acc)
  show ?case
  proof (cases "lat_attr p = None \<or> lon_attr p = None")
    case True
    then show ?thesis unfolding acc by (auto split: sum.splits)
  next
    case False
    with Cons.prems have "\<exists>p \<in> set ps. lat_attr p = None \<or> lon_attr p = None" by auto
    from Cons.IH [OF this] show ?thesis unfolding acc by (auto split: sum.splits)
  qed
qed

text \<open>
  C9, as amended. Track parsing fails on malformed source structure, and the
  exception is the result of \<^verbatim>\<open>parse_gpx\<close>: nothing is caught, and no track,
  partial or other, is returned. A document that is not well-formed makes
  \<^verbatim>\<open>ET.parse\<close> raise its \<^verbatim>\<open>ParseError\<close>. A track point without \<^verbatim>\<open>lat\<close>
  or \<^verbatim>\<open>lon\<close> makes \<^verbatim>\<open>float(None)\<close> raise a \<^verbatim>\<open>TypeError\<close>, not a
  \<^verbatim>\<open>ParseError\<close>, unless a non-numeric attribute earlier in the document has
  already raised a \<^verbatim>\<open>ValueError\<close>; when every point before the defective one is
  readable, the exception is that \<^verbatim>\<open>TypeError\<close>.
\<close>

theorem malformed_track_raises:
  "(fs file_path = Some NotWellFormed \<longrightarrow> parse_gpx strtod fs file_path s = Inl ParseError) \<and>
   (fs file_path = Some (Tree doc) \<and>
    (\<exists>p \<in> set (trkpts doc). lat_attr p = None \<or> lon_attr p = None) \<longrightarrow>
      parse_gpx strtod fs file_path s = Inl TypeError \<or>
      parse_gpx strtod fs file_path s = Inl ValueError) \<and>
   (fs file_path = Some (Tree doc) \<and> trkpts doc = readable @ p # rest \<and>
    read_trkpts strtod readable ([], [], []) = Inr acc \<and>
    (lat_attr p = None \<or> (\<exists>v. py_float strtod (lat_attr p) = Inr v) \<and> lon_attr p = None) \<longrightarrow>
      parse_gpx strtod fs file_path s = Inl TypeError)"
proof (intro conjI impI)
  assume "fs file_path = Some NotWellFormed"
  then show "parse_gpx strtod fs file_path s = Inl ParseError"
    by (simp add: parse_gpx_def ET_parse_def)
next
  assume a: "fs file_path = Some (Tree doc) \<and>
             (\<exists>p \<in> set (trkpts doc). lat_attr p = None \<or> lon_attr p = None)"
  then obtain e where e: "read_trkpts strtod (trkpts doc) ([], [], []) = Inl e"
    using read_trkpts_missing by blast
  then have "e = TypeError \<or> e = ValueError" by (rule read_trkpts_error_kind)
  then show "parse_gpx strtod fs file_path s = Inl TypeError \<or>
             parse_gpx strtod fs file_path s = Inl ValueError"
    using a e by (auto simp: parse_gpx_def ET_parse_def)
next
  assume a: "fs file_path = Some (Tree doc) \<and> trkpts doc = readable @ p # rest \<and>
    read_trkpts strtod readable ([], [], []) = Inr acc \<and>
    (lat_attr p = None \<or> (\<exists>v. py_float strtod (lat_attr p) = Inr v) \<and> lon_attr p = None)"
  then have "read_trkpts strtod (p # rest) acc = Inl TypeError"
    by (intro read_trkpts_missing_first) blast
  then have "read_trkpts strtod (trkpts doc) ([], [], []) = Inl TypeError"
    using a by (simp add: read_trkpts_append)
  then show "parse_gpx strtod fs file_path s = Inl TypeError"
    using a by (simp add: parse_gpx_def ET_parse_def)
qed

theorem malformed_track_raises_witness:
  "parse_gpx example_strtod example_files ''broken.gpx'' 10 = Inl ParseError \<and>
   parse_gpx example_strtod example_files ''nolat.gpx'' 10 = Inl TypeError"
proof -
  let ?p1 = "\<lparr>lat_attr = Some ''48'', lon_attr = Some ''9'', ele_elem = None\<rparr>"
  let ?p2 = "\<lparr>lat_attr = None, lon_attr = Some ''9'', ele_elem = None\<rparr>"
  let ?doc = "\<lparr>name_elem = None, trkpts = [?p1, ?p2]\<rparr>"
  have b: "example_files ''broken.gpx'' = Some NotWellFormed"
    and n: "example_files ''nolat.gpx'' = Some (Tree ?doc)"
    by (simp_all add: example_files_def)
  have r: "read_trkpts example_strtod [?p1] ([], [], []) = Inr ([Finite 48], [Finite 9], [Finite 0])"
    by (simp add: example_strtod_def py_float_def)
  have m: "\<exists>p \<in> set (trkpts ?doc). lat_attr p = None \<or> lon_attr p = None" by simp
  have "parse_gpx example_strtod example_files ''broken.gpx'' 10 = Inl ParseError"
    using malformed_track_raises
            [of example_files "''broken.gpx''" example_strtod 10 ?doc "[]" ?p2 "[]" "([], [], [])"] b
    by blast
  moreover have "parse_gpx example_strtod example_files ''nolat.gpx'' 10 = Inl TypeError"
    using malformed_track_raises
            [of example_files "''nolat.gpx''" example_strtod 10 ?doc "[?p1]" ?p2 "[]"
                "([Finite 48], [Finite 9], [Finite 0])"] n r m
    by simp
  ultimately show ?thesis ..
qed

text \<open>
  The claim C9 as stated fails. The second point of \<^verbatim>\<open>nolat.gpx\<close> has no
  \<^verbatim>\<open>lat\<close> attribute: the exception that \<^verbatim>\<open>parse_gpx\<close> raises is the
  \<^verbatim>\<open>TypeError\<close> of \<^verbatim>\<open>float(None)\<close>, which is not a \<^verbatim>\<open>ParseError\<close>.
\<close>

theorem missing_latitude_is_not_a_parse_error:
  "parse_gpx example_strtod example_files ''nolat.gpx'' 10 = Inl TypeError \<and>
   parse_gpx example_strtod example_files ''nolat.gpx'' 10 \<noteq> Inl ParseError"
  by (simp add: parse_gpx_def ET_parse_def example_files_def example_strtod_def py_float_def)

section \<open>Properties of the double-precision model\<close>

lemma floor_rat_numeral [simp]:
  "\<lfloor>numeral a / numeral b :: rat\<rfloor> = numeral a div numeral b"
  by (metis floor_divide_of_int_eq of_int_numeral)


lemma round_half_even_of_int [simp]: "round_half_even (of_int n) = n"
  by (simp add: round_half_even_def)












lemma fl_0 [simp]: "fl 0 = 0"
  by (simp add: fl_def)





lemma py_int_nonneg: "0 \<le> x \<Longrightarrow> py_int x = \<lfloor>x\<rfloor>"
  by (simp add: py_int_def)



section \<open>Properties of the dimension cap\<close>



lemma resize_for_web_small:
  "width img \<le> 2048 \<Longrightarrow> height img \<le> 2048 \<Longrightarrow> resize_for_web lanczos img = Inr img"
  by (simp add: resize_for_web_def max_dim_def)





section \<open>Properties of the band handling\<close>








lemma astype_uint8_0 [simp]: "astype_uint8 0 = 0"
  by (simp add: astype_uint8_def py_int_def)







lemma zip3_same: "zip xs (zip xs xs) = map (\<lambda>x. (x, x, x)) xs"
  by (induction xs) simp_all

lemma np_stack3_same: "np_stack3 n n n = map (map (\<lambda>x. (x, x, x))) n"
  by (simp add: np_stack3_def zip3_same)

lemma normalize_band_pixels:
  "normalize_band band nd =
     map (map (\<lambda>v. let n = normalize_pixel (b_min band nd) (b_max band nd) v
                    in (n, n, n))) band"
  by (simp add: normalize_band_def np_stack3_same Let_def comp_def)









section \<open>The capability check\<close>

text \<open>
  C8. When rasterio could not be imported (\<^verbatim>\<open>HAS_RASTERIO\<close> is false),
  \<^verbatim>\<open>extract_geotiff_data\<close> raises the \<^verbatim>\<open>RuntimeError\<close> of its capability
  check, whatever the path and the files: no file has been opened, and the world is
  as it was. This error is what the specification calls a ConfigurationError. With
  rasterio present the path is opened.
\<close>

theorem capability_check_comes_first:
  "(\<not> HAS_RASTERIO \<longrightarrow>
      extract_geotiff_data HAS_RASTERIO lib w file_path =
        (Inl (RuntimeError ''rasterio required for GeoTIFF processing''), w)) \<and>
   (HAS_RASTERIO \<longrightarrow>
      opened (snd (extract_geotiff_data HAS_RASTERIO lib w file_path)) = opened w @ [file_path])"
  by (auto simp: extract_geotiff_data_def Let_def split: option.splits sum.splits prod.splits)

theorem capability_check_comes_first_witness:
  "extract_geotiff_data False example_libs example_world ''dem.tif'' =
     (Inl (RuntimeError ''rasterio required for GeoTIFF processing''), example_world) \<and>
   opened (snd (extract_geotiff_data False example_libs example_world ''dem.tif'')) = [] \<and>
   opened (snd (extract_geotiff_data True example_libs example_world ''dem.tif'')) = [''dem.tif'']"
  using capability_check_comes_first [of False example_libs example_world "''dem.tif''"]
    capability_check_comes_first [of True example_libs example_world "''dem.tif''"]
  by (simp add: example_world_def)

section \<open>Idempotence of the raster normalization\<close>

lemma width_fromarray_stack3:
  "width (Image_fromarray (np_stack3 r g b)) \<le> width (Image_fromarray r)"
  by (cases r; cases g; cases b) (simp_all add: Image_fromarray_def np_stack3_def)

lemma height_fromarray_stack3:
  "height (Image_fromarray (np_stack3 r g b)) \<le> height (Image_fromarray r)"
  by (simp add: Image_fromarray_def np_stack3_def)

lemma size_fromarray_normalize_band:
  "width (Image_fromarray (normalize_band band nd)) = width (Image_fromarray band)"
  "height (Image_fromarray (normalize_band band nd)) = height (Image_fromarray band)"
  by (cases band; simp add: normalize_band_pixels Image_fromarray_def)+

lemma size_fromarray_map:
  "width (Image_fromarray (map (map f) a)) = width (Image_fromarray a)"
  "height (Image_fromarray (map (map f) a)) = height (Image_fromarray a)"
  by (cases a; simp add: Image_fromarray_def)+

lemma pixels_fromarray [simp]: "pixels (Image_fromarray a) = a"
  by (simp add: Image_fromarray_def)

lemma zip_planes: "zip (map fst xs) (zip (map (fst \<circ> snd) xs) (map (snd \<circ> snd) xs)) = xs"
  by (induction xs) auto

lemma np_stack3_planes:
  "np_stack3 (map (map fst) a) (map (map (fst \<circ> snd)) a) (map (map (snd \<circ> snd)) a) = a"
proof -
  have "map (\<lambda>(rr, gr, br). zip rr (zip gr br))
          (zip (map (map fst) a) (zip (map (map (fst \<circ> snd)) a) (map (map (snd \<circ> snd)) a)))
        = a"
    by (induction a) (simp_all add: zip_planes [unfolded comp_def] comp_def)
  then show ?thesis by (simp add: np_stack3_def comp_def)
qed

lemma to_rgb_uint8:
  assumes "bands \<noteq> []"
  shows "\<exists>rgb. to_rgb (UInt8Array bands) nd = Inr rgb \<and>
           width (Image_fromarray rgb) \<le> fst (array_size (UInt8Array bands)) \<and>
           height (Image_fromarray rgb) \<le> snd (array_size (UInt8Array bands)) \<and>
           (3 \<le> length bands \<longrightarrow> rgb = np_stack3 (bands ! 0) (bands ! 1) (bands ! 2))"
proof -
  obtain b0 rest where b: "bands = b0 # rest" using assms by (cases bands) auto
  show ?thesis
  proof (cases "3 \<le> length bands")
    case True
    then show ?thesis
      using width_fromarray_stack3 [of b0 "bands ! 1" "bands ! 2"]
        height_fromarray_stack3 [of b0 "bands ! 1" "bands ! 2"]
      by (simp add: to_rgb_def array_size_def b)
  next
    case False
    then show ?thesis
      by (simp add: to_rgb_def array_size_def b size_fromarray_normalize_band
            size_fromarray_map)
  qed
qed

lemma raster_image_of_texture:
  assumes "width (Image_fromarray a) \<le> 2048" "height (Image_fromarray a) \<le> 2048"
  shows "raster_image lib (raster_of_texture c b nd (Image_fromarray a)) =
           Inr (Image_fromarray a, width (Image_fromarray a), height (Image_fromarray a))"
proof -
  have p: "pixels (Image_fromarray a) = a" by (simp add: Image_fromarray_def)
  have "to_rgb (data (raster_of_texture c b nd (Image_fromarray a)))
               (nodata (raster_of_texture c b nd (Image_fromarray a))) = Inr a"
    by (simp add: raster_of_texture_def to_rgb_def p np_stack3_planes)
  then show ?thesis
    using assms by (simp add: raster_image_def resize_for_web_small Let_def)
qed

text \<open>
  C7. Raster normalization, that is band handling followed by the dimension cap
  (lines 49-83, before the JPEG encoder), is idempotent on rasters that are 8-bit and
  within the cap: it returns a texture of at most 2048 by 2048, and applied to that
  texture, read back as an 8-bit raster of three bands, it returns the same pixels
  and the same size. On three bands or more the texture is the stack of the first
  three bands, unchanged.
\<close>

theorem normalization_is_idempotent:
  assumes "data src = UInt8Array bands"
    and "bands \<noteq> []"
    and "fst (array_size (data src)) \<le> 2048"
    and "snd (array_size (data src)) \<le> 2048"
  shows "\<exists>img. raster_image lib src = Inr (img, width img, height img) \<and>
           raster_image lib (raster_of_texture c b nd img) = Inr (img, width img, height img) \<and>
           width img \<le> 2048 \<and> height img \<le> 2048 \<and>
           (3 \<le> length bands \<longrightarrow> pixels img = np_stack3 (bands ! 0) (bands ! 1) (bands ! 2))"
proof -
  from to_rgb_uint8 [OF assms(2), of "nodata src"] obtain rgb where
    r: "to_rgb (UInt8Array bands) (nodata src) = Inr rgb"
       "width (Image_fromarray rgb) \<le> fst (array_size (UInt8Array bands))"
       "height (Image_fromarray rgb) \<le> snd (array_size (UInt8Array bands))"
       "3 \<le> length bands \<longrightarrow> rgb = np_stack3 (bands ! 0) (bands ! 1) (bands ! 2)"
    by blast
  let ?img = "Image_fromarray rgb"
  have s: "width ?img \<le> 2048" "height ?img \<le> 2048"
    using r(2,3) assms(1,3,4) by simp_all
  have one: "raster_image lib src = Inr (?img, width ?img, height ?img)"
    using r(1) s assms(1) by (simp add: raster_image_def resize_for_web_small Let_def)
  have two: "raster_image lib (raster_of_texture c b nd ?img) = Inr (?img, width ?img, height ?img)"
    using s by (rule raster_image_of_texture)
  show ?thesis
    using one two s r(4) by (intro exI [of _ ?img]) simp
qed

theorem normalization_is_idempotent_witness:
  "raster_image example_libs example_rgb8 =
     Inr (\<lparr>width = 2, height = 1, pixels = [[(1, 3, 5), (2, 4, 6)]]\<rparr>, 2, 1) \<and>
   raster_image example_libs
     (raster_of_texture ''EPSG:4326'' (8, 47, 9, 48) None
        \<lparr>width = 2, height = 1, pixels = [[(1, 3, 5), (2, 4, 6)]]\<rparr>) =
     Inr (\<lparr>width = 2, height = 1, pixels = [[(1, 3, 5), (2, 4, 6)]]\<rparr>, 2, 1)"
proof -
  let ?bands = "[[[1, 2]], [[3, 4]], [[5, 6]]] :: uint8 grid list"
  have d: "data example_rgb8 = UInt8Array ?bands" by (simp add: example_rgb8_def)
  have n: "?bands \<noteq> []" by simp
  have w: "fst (array_size (data example_rgb8)) \<le> 2048"
    and h: "snd (array_size (data example_rgb8)) \<le> 2048"
    by (simp_all add: d array_size_def Image_fromarray_def)
  from normalization_is_idempotent
         [where lib = example_libs and c = "''EPSG:4326''" and b = "(8, 47, 9, 48)"
            and nd = None, OF d n w h]
  obtain img where i:
    "raster_image example_libs example_rgb8 = Inr (img, width img, height img)"
    "raster_image example_libs (raster_of_texture ''EPSG:4326'' (8, 47, 9, 48) None img)
       = Inr (img, width img, height img)"
    by blast
  have e: "raster_image example_libs example_rgb8 =
          Inr (\<lparr>width = 2, height = 1, pixels = [[(1, 3, 5), (2, 4, 6)]]\<rparr>, 2, 1)"
    by (simp add: raster_image_def d to_rgb_def np_stack3_def Image_fromarray_def
          resize_for_web_def max_dim_def Let_def)
  have "(img, width img, height img) =
          (\<lparr>width = 2, height = 1, pixels = [[(1, 3, 5), (2, 4, 6)]]\<rparr>, 2, 1)"
    using i(1) unfolding e by (simp only: sum.inject)
  then have im: "img = \<lparr>width = 2, height = 1, pixels = [[(1, 3, 5), (2, 4, 6)]]\<rparr>"
    by (simp only: prod.inject)
  show ?thesis using e i(2) unfolding im by simp
qed

section \<open>Properties of process_heightmap\<close>

lemma make_square_size:
  "width (make_square img) = max (width img) (height img)"
  "height (make_square img) = max (width img) (height img)"
  by (simp_all add: make_square_def Image_paste_def Image_new_def Let_def)

lemma make_square_pixel:
  assumes "x < max (width img) (height img)" "y < max (width img) (height img)"
  shows "pixels (make_square img) ! y ! x =
           (if (max (width img) (height img) - width img) div 2 \<le> x \<and>
               x < (max (width img) (height img) - width img) div 2 + width img \<and>
               (max (width img) (height img) - height img) div 2 \<le> y \<and>
               y < (max (width img) (height img) - height img) div 2 + height img
            then pixels img ! (y - (max (width img) (height img) - height img) div 2)
                            ! (x - (max (width img) (height img) - width img) div 2)
            else 0)"
  using assms
  by (simp add: make_square_def Image_paste_def Image_new_def Let_def)

text \<open>
  C6. Heightmap squaring. The blurred single-channel image of size \<open>w\<close> by \<open>h\<close>
  is pasted on a zero-filled square of side \<open>m = max w h\<close> at the offset
  \<open>((m - w) div 2, (m - h) div 2)\<close>: inside the box the square has the pixels of the
  image, outside it is 0, and the left and top margins are the smaller ones when the
  padding is odd. The square is then resized to the target side in both directions
  (Pillow refuses a side below 1), and that image is what is encoded. An image of
  300 by 200 gives a square of side 300 with the offset \<open>(0, 50)\<close>, 50 rows of
  padding above and below.
\<close>

theorem heightmap_squaring:
  fixes img :: "uint8 image" and lib :: "'m heightmap_libs"
  defines "m \<equiv> max (width img) (height img)"
  defines "ox \<equiv> (m - width img) div 2" and "oy \<equiv> (m - height img) div 2"
  shows
  "width (make_square img) = m \<and> height (make_square img) = m \<and>
   (\<forall>x y. x < m \<and> y < m \<longrightarrow>
      pixels (make_square img) ! y ! x =
        (if ox \<le> x \<and> x < ox + width img \<and> oy \<le> y \<and> y < oy + height img
         then pixels img ! (y - oy) ! (x - ox) else 0)) \<and>
   ox \<le> m - width img - ox \<and> m - width img - ox \<le> ox + 1 \<and>
   oy \<le> m - height img - oy \<and> m - height img - oy \<le> oy + 1 \<and>
   (\<forall>f. files file_path = Some f \<longrightarrow>
      heightmap_image lib files file_path target_side =
        (if target_side < 1 then Inl ValueError
         else Inr \<lparr>width = nat target_side, height = nat target_side,
                   pixels = LANCZOS_l lib
                              (make_square ((convert_l lib f)\<lparr>pixels := blur lib (convert_l lib f)\<rparr>))
                              (nat target_side, nat target_side)\<rparr>)) \<and>
   (\<forall>final. heightmap_image lib files file_path target_side = Inr final \<longrightarrow>
      process_heightmap lib files file_path target_side = Inr (png_b64 lib final)) \<and>
   (width img = 300 \<and> height img = 200 \<longrightarrow> m = 300 \<and> ox = 0 \<and> oy = 50)"
proof (intro conjI allI impI)
  show "width (make_square img) = m" "height (make_square img) = m"
    by (simp_all add: make_square_size m_def)
  show "pixels (make_square img) ! y ! x =
        (if ox \<le> x \<and> x < ox + width img \<and> oy \<le> y \<and> y < oy + height img
         then pixels img ! (y - oy) ! (x - ox) else 0)"
    if "x < m \<and> y < m" for x y
  proof -
    from that have "x < max (width img) (height img)" "y < max (width img) (height img)"
      unfolding m_def by blast+
    then show ?thesis unfolding m_def ox_def oy_def by (rule make_square_pixel)
  qed
  have margin: "d div 2 \<le> d - d div 2 \<and> d - d div 2 \<le> d div 2 + 1" for d :: nat
    by linarith
  show "ox \<le> m - width img - ox" "m - width img - ox \<le> ox + 1"
    using margin [of "m - width img"] unfolding ox_def by blast+
  show "oy \<le> m - height img - oy" "m - height img - oy \<le> oy + 1"
    using margin [of "m - height img"] unfolding oy_def by blast+
  show "heightmap_image lib files file_path target_side =
        (if target_side < 1 then Inl ValueError
         else Inr \<lparr>width = nat target_side, height = nat target_side,
                   pixels = LANCZOS_l lib
                              (make_square ((convert_l lib f)\<lparr>pixels := blur lib (convert_l lib f)\<rparr>))
                              (nat target_side, nat target_side)\<rparr>)"
    if "files file_path = Some f" for f
    using that by (simp add: heightmap_image_def Image_resize_def Let_def)
  show "process_heightmap lib files file_path target_side = Inr (png_b64 lib final)"
    if "heightmap_image lib files file_path target_side = Inr final" for final
    using that by (simp add: process_heightmap_def)
  show "m = 300" "ox = 0" "oy = 50" if "width img = 300 \<and> height img = 200"
    using that by (simp_all add: m_def ox_def oy_def)
qed

theorem heightmap_squaring_witness:
  "width (make_square example_heightmap) = 300 \<and>
   height (make_square example_heightmap) = 300 \<and>
   pixels (make_square example_heightmap) ! 49 ! 10 = 0 \<and>
   pixels (make_square example_heightmap) ! 50 ! 10 = 7 \<and>
   pixels (make_square example_heightmap) ! 249 ! 10 = 7 \<and>
   pixels (make_square example_heightmap) ! 250 ! 10 = 0 \<and>
   (\<exists>final. heightmap_image example_heightmap_libs
               (\<lambda>p. if p = ''height.png'' then Some example_heightmap else None)
               ''height.png'' 512 = Inr final \<and>
            width final = 512 \<and> height final = 512)"
proof -
  have s: "width example_heightmap = 300" "height example_heightmap = 200"
    by (simp_all add: example_heightmap_def)
  have p: "pixels example_heightmap ! y ! x = 7" if "y < 200" "x < 300" for x y
    using that by (simp add: example_heightmap_def)
  note t = heightmap_squaring
             [where img = example_heightmap and lib = example_heightmap_libs
                and files = "\<lambda>p. if p = ''height.png'' then Some example_heightmap else None"
                and file_path = "''height.png''" and target_side = 512]
  have px: "pixels (make_square example_heightmap) ! y ! x =
        (if 0 \<le> x \<and> x < 0 + 300 \<and> 50 \<le> y \<and> y < 50 + 200
         then pixels example_heightmap ! (y - 50) ! (x - 0) else 0)"
    if "x < 300 \<and> y < 300" for x y
    using t that by (simp add: s)
  have "width (make_square example_heightmap) = 300"
    "height (make_square example_heightmap) = 300"
    using t by (simp_all add: s)
  moreover have "pixels (make_square example_heightmap) ! 49 ! 10 = 0"
    "pixels (make_square example_heightmap) ! 50 ! 10 = 7"
    "pixels (make_square example_heightmap) ! 249 ! 10 = 7"
    "pixels (make_square example_heightmap) ! 250 ! 10 = 0"
    by (simp_all add: px p)
  moreover have "\<exists>final. heightmap_image example_heightmap_libs
               (\<lambda>p. if p = ''height.png'' then Some example_heightmap else None)
               ''height.png'' 512 = Inr final \<and>
            width final = 512 \<and> height final = 512"
    using t by simp
  ultimately show ?thesis by simp
qed

end
